theory Spec2Isabelle
  imports Main
begin

section \<open>Strings, bytes and path functions\<close>

text \<open>
  A Python 3 \<open>str\<close> is a sequence of Unicode code points; it is modelled as a list of
  natural numbers, so that slicing (\<open>sub[5:]\<close>) counts code points as Python does.
  A \<open>bytes\<close> value (file contents) is the list of its byte values.
  \<open>str\<close> turns an ASCII literal into a Python string, or into a \<open>bytes\<close> literal.
\<close>

type_synonym pystr = "nat list"
type_synonym bytes = "nat list"

definition str :: "string \<Rightarrow> pystr" where
  "str s = map of_char s"

text \<open>\<open>s.startswith(p)\<close>, for \<open>str\<close> and for \<open>bytes\<close>.\<close>

definition startswith :: "'a list \<Rightarrow> 'a list \<Rightarrow> bool" where
  "startswith s p = (take (length p) s = p)"

text \<open>\<open>s.endswith(p)\<close>.\<close>

definition endswith :: "'a list \<Rightarrow> 'a list \<Rightarrow> bool" where
  "endswith s p = (length p \<le> length s \<and> drop (length s - length p) s = p)"

text \<open>\<open>s.rfind(c)\<close> for a one-character \<open>c\<close>: the last index of \<open>c\<close>, or \<open>-1\<close>.\<close>

fun rfind :: "'a list \<Rightarrow> 'a \<Rightarrow> int" where
  "rfind [] c = -1"
| "rfind (x # xs) c =
     (let r = rfind xs c
      in if 0 \<le> r then r + 1 else if x = c then 0 else -1)"

abbreviation slash :: nat where "slash \<equiv> 47"
abbreviation dot :: nat where "dot \<equiv> 46"

text \<open>
  \<open>str.lower()\<close>. On a string of ASCII characters it maps \<open>A..Z\<close> to \<open>a..z\<close>
  and leaves every other character. On any other string it is Unicode's lowercase
  mapping, which is not a function of single characters; that mapping is a parameter
  \<open>L\<close> of the model.
\<close>

definition ascii_lower :: "nat \<Rightarrow> nat" where
  "ascii_lower c = (if 65 \<le> c \<and> c \<le> 90 then c + 32 else c)"

definition is_ascii :: "pystr \<Rightarrow> bool" where
  "is_ascii s = list_all (\<lambda>c. c < 128) s"

definition lower :: "(pystr \<Rightarrow> pystr) \<Rightarrow> pystr \<Rightarrow> pystr" where
  "lower L s = (if is_ascii s then map ascii_lower s else L s)"

text \<open>\<open>bytes.upper()\<close>: only the ASCII letters \<open>a..z\<close> change.\<close>

definition byte_upper :: "nat \<Rightarrow> nat" where
  "byte_upper c = (if 97 \<le> c \<and> c \<le> 122 then c - 32 else c)"

definition upper :: "bytes \<Rightarrow> bytes" where
  "upper b = map byte_upper b"

text \<open>
  \<open>os.path.join(a, b)\<close>, \<open>os.path.split(p)[1]\<close> and \<open>os.path.splitext(p)\<close> of
  \<open>posixpath\<close>. The loop of \<open>splitext\<close> that skips leading dots of the file name is
  \<open>has_non_dot\<close> over the slice between the last separator and the last dot.
\<close>

definition join :: "pystr \<Rightarrow> pystr \<Rightarrow> pystr" where
  "join a b =
     (if startswith b [slash] then b
      else if a = [] \<or> endswith a [slash] then a @ b
      else a @ [slash] @ b)"

definition split_tail :: "pystr \<Rightarrow> pystr" where
  "split_tail p = drop (nat (rfind p slash + 1)) p"

fun has_non_dot :: "pystr \<Rightarrow> bool" where
  "has_non_dot [] = False"
| "has_non_dot (c # cs) = (if c \<noteq> dot then True else has_non_dot cs)"

definition splitext :: "pystr \<Rightarrow> pystr \<times> pystr" where
  "splitext p =
     (let sepIndex = rfind p slash;
          dotIndex = rfind p dot
      in if dotIndex > sepIndex \<and>
            has_non_dot (take (nat (dotIndex - (sepIndex + 1))) (drop (nat (sepIndex + 1)) p))
         then (take (nat dotIndex) p, drop (nat dotIndex) p)
         else (p, []))"

section \<open>Filename codec\<close>

text \<open>
  \<open>pseudo_colon\<close> is the one-character string U+02D0 and \<open>pseudo_protocol\<close> is
  \<open>File\<close> followed by it (lines 34-35). \<open>mark\<close> is the renaming of \<open>undo\<close>
  (line 50, \<open>new = pseudo_protocol + sub\<close>). \<open>unmark\<close> is the pair of slices of
  \<open>redownload_all\<close>: \<open>sub[5:]\<close> under \<open>sub.startswith(pseudo_protocol)\<close> (lines
  218-219), \<open>sub[1:]\<close> under \<open>sub.startswith(pseudo_colon)\<close> (lines 228-229), and
  no new name for an entry with neither prefix (line 233).
\<close>

definition pseudo_colon :: pystr where
  "pseudo_colon = [720]"

definition pseudo_protocol :: pystr where
  "pseudo_protocol = str ''File'' @ [720]"

definition mark :: "pystr \<Rightarrow> pystr" where
  "mark sub = pseudo_protocol @ sub"

definition unmark :: "pystr \<Rightarrow> pystr option" where
  "unmark sub =
     (if startswith sub pseudo_protocol then Some (drop 5 sub)
      else if startswith sub pseudo_colon then Some (drop 1 sub)
      else None)"

section \<open>The world: file system, console and network\<close>

text \<open>
  The program's effects are made explicit in a \<open>world\<close>: the file system (a map from
  path strings to regular files and directories), the messages printed so far, and
  the HTTP GET requests sent so far (URL and headers).

  Model of the operating system: a path string denotes one node, paths are compared as
  strings (no current directory, no symbolic links, no normalisation), and writing to a
  path or creating a directory does not ask for the parent directory to exist.
  The model is POSIX (\<open>posixpath\<close>).
\<close>

datatype node = File bytes | Dir

record elt =
  tag :: pystr
  attrib :: "(pystr \<times> pystr) list"

datatype msg =
    Downloading pystr
  | Progress nat int
  | NotDoctype bytes
  | SrcNotIn elt
  | WarnSkipping pystr pystr
  | SkippingExisting pystr
  | Mv pystr pystr
  | HashDownloading pystr
  | ErrorFailed pystr
  | Saved pystr
  | WarnNoSource pystr
  | MvQ pystr pystr
  | HashSkipping pystr

record world =
  nodes :: "pystr \<Rightarrow> node option"
  stdout :: "msg list"
  requests :: "(pystr \<times> (pystr \<times> pystr) list) list"

datatype error =
    ValueError string
  | ZeroDivisionError
  | TypeError
  | FileNotFoundError pystr
  | IsADirectoryError pystr
  | FileExistsError pystr
  | ShutilError pystr
  | ParserError
  | RequestException

text \<open>
  A statement of the program maps a world to a result and a world: \<open>Inl e\<close> when it
  raises \<open>e\<close>, with the world as it is at that moment.
\<close>

type_synonym 'a io = "world \<Rightarrow> (error + 'a) \<times> world"

definition io_return :: "'a \<Rightarrow> 'a io" where
  "io_return x w = (Inr x, w)"

definition io_raise :: "error \<Rightarrow> 'a io" where
  "io_raise e w = (Inl e, w)"

definition io_bind :: "'a io \<Rightarrow> ('a \<Rightarrow> 'b io) \<Rightarrow> 'b io" where
  "io_bind m f w =
     (case m w of
        (Inl e, w') \<Rightarrow> (Inl e, w')
      | (Inr x, w') \<Rightarrow> f x w')"

definition io_get :: "(world \<Rightarrow> 'a) \<Rightarrow> 'a io" where
  "io_get f w = (Inr (f w), w)"

definition io_when :: "bool \<Rightarrow> unit io \<Rightarrow> unit io" where
  "io_when b m = (if b then m else io_return ())"

definition print :: "msg \<Rightarrow> unit io" where
  "print m w = (Inr (), w\<lparr>stdout := stdout w @ [m]\<rparr>)"

subsection \<open>\<open>os\<close> and \<open>shutil\<close>\<close>

text \<open>The empty path names nothing (\<open>os.path.isdir("")\<close> is false).\<close>

definition lookup :: "world \<Rightarrow> pystr \<Rightarrow> node option" where
  "lookup w p = (if p = [] then None else nodes w p)"

definition isfile :: "world \<Rightarrow> pystr \<Rightarrow> bool" where
  "isfile w p = (case lookup w p of Some (File c) \<Rightarrow> True | _ \<Rightarrow> False)"

definition isdir :: "world \<Rightarrow> pystr \<Rightarrow> bool" where
  "isdir w p = (lookup w p = Some Dir)"

definition os_makedirs :: "pystr \<Rightarrow> unit io" where
  "os_makedirs p w =
     (if p = [] then (Inl (FileNotFoundError p), w)
      else if lookup w p \<noteq> None then (Inl (FileExistsError p), w)
      else (Inr (), w\<lparr>nodes := (nodes w)(p \<mapsto> Dir)\<rparr>))"

definition os_remove :: "pystr \<Rightarrow> unit io" where
  "os_remove p w =
     (case lookup w p of
        None \<Rightarrow> (Inl (FileNotFoundError p), w)
      | Some Dir \<Rightarrow> (Inl (IsADirectoryError p), w)
      | Some (File c) \<Rightarrow> (Inr (), w\<lparr>nodes := (nodes w)(p := None)\<rparr>))"

text \<open>
  \<open>os.rename(src, dst)\<close> as \<open>shutil.move\<close> uses it: a regular file replaces a regular
  file at \<open>dst\<close>; a directory is renamed with everything below it.
\<close>

definition under :: "pystr \<Rightarrow> pystr \<Rightarrow> bool" where
  "under d p = (p = d \<or> startswith p (d @ [slash]))"

definition os_rename :: "pystr \<Rightarrow> pystr \<Rightarrow> unit io" where
  "os_rename src dst w =
     (case lookup w src of
        None \<Rightarrow> (Inl (FileNotFoundError src), w)
      | Some (File c) \<Rightarrow>
          if dst = [] then (Inl (FileNotFoundError dst), w)
          else if isdir w dst then (Inl (IsADirectoryError dst), w)
          else (Inr (), w\<lparr>nodes := (nodes w)(src := None, dst \<mapsto> File c)\<rparr>)
      | Some Dir \<Rightarrow>
          if dst = [] then (Inl (FileNotFoundError dst), w)
          else if src = dst then (Inr (), w)
          else if lookup w dst \<noteq> None then (Inl (FileExistsError dst), w)
          else if under src dst then (Inl (ShutilError dst), w)
          else (Inr (), w\<lparr>nodes := (\<lambda>p.
                  if under dst p then nodes w (src @ drop (length dst) p)
                  else if under src p then None
                  else nodes w p)\<rparr>))"

text \<open>\<open>shutil._basename\<close>: the last component, trailing separators ignored.\<close>

definition basename :: "pystr \<Rightarrow> pystr" where
  "basename p = split_tail (rev (dropWhile (\<lambda>c. c = slash) (rev p)))"

definition shutil_move :: "pystr \<Rightarrow> pystr \<Rightarrow> unit io" where
  "shutil_move src dst w =
     (if isdir w dst then
        if src = dst then os_rename src dst w
        else
          let real_dst = join dst (basename src)
          in if lookup w real_dst \<noteq> None then (Inl (ShutilError real_dst), w)
             else os_rename src real_dst w
      else os_rename src dst w)"

text \<open>\<open>open(p, "wb")\<close> creates or truncates the file; \<open>f.write(data)\<close> appends.\<close>

definition open_wb :: "pystr \<Rightarrow> unit io" where
  "open_wb p w =
     (if p = [] then (Inl (FileNotFoundError p), w)
      else if isdir w p then (Inl (IsADirectoryError p), w)
      else (Inr (), w\<lparr>nodes := (nodes w)(p \<mapsto> File [])\<rparr>))"

definition file_write :: "pystr \<Rightarrow> bytes \<Rightarrow> unit io" where
  "file_write p data w =
     (Inr (), w\<lparr>nodes := (nodes w)(p \<mapsto>
        File ((case nodes w p of Some (File c) \<Rightarrow> c | _ \<Rightarrow> []) @ data))\<rparr>)"

text \<open>\<open>open(p, "rb")\<close> followed by \<open>f.read(n)\<close>.\<close>

definition read_prefix :: "pystr \<Rightarrow> nat \<Rightarrow> bytes io" where
  "read_prefix p n w =
     (case lookup w p of
        None \<Rightarrow> (Inl (FileNotFoundError p), w)
      | Some Dir \<Rightarrow> (Inl (IsADirectoryError p), w)
      | Some (File c) \<Rightarrow> (Inr (take n c), w))"

subsection \<open>Libraries outside the repository\<close>

text \<open>
  What the program takes from its libraries and from the network is a parameter of
  the model, an \<open>env\<close>: \<open>urllib\<close>'s \<open>unquote\<close>; Unicode's lowercase mapping (see
  \<open>lower\<close>); \<open>lxml\<close>'s parser, which gives the elements of a document in the order
  of \<open>doc.iter()\<close>, or fails; the response of the server to the \<open>k\<close>-th GET request
  of the run, or a failure of the transport; \<open>int\<close> on a string; \<open>os.listdir\<close> and
  \<open>os.path.realpath\<close>.
\<close>

record response =
  content_length :: "pystr option"
  iter_content :: "bytes list"

record env =
  unquote :: "pystr \<Rightarrow> pystr"
  unicode_lower :: "pystr \<Rightarrow> pystr"
  lh_parse :: "bytes \<Rightarrow> elt list option"
  requests_get :: "nat \<Rightarrow> pystr \<Rightarrow> (pystr \<times> pystr) list \<Rightarrow> response option"
  int_of_str :: "pystr \<Rightarrow> int option"
  os_listdir :: "world \<Rightarrow> pystr \<Rightarrow> pystr list option"
  realpath :: "pystr \<Rightarrow> pystr"

section \<open>The program\<close>

subsection \<open>The user agent and \<open>download\<close> (lines 39-85)\<close>

definition UA :: pystr where
  "UA = str ''User-Agent: FileReFollow/0.2'' @
        str '' (https://github.com/Poikilos/filerefollow) filerefollow/0.2''"

definition headers :: "(pystr \<times> pystr) list" where
  "headers = [(str ''User-Agent'', UA)]"

text \<open>
  \<open>requests.get(url, stream=True, headers=hs)\<close>: the request is recorded, then the
  transport answers or raises.
\<close>

definition requests_get_io :: "env \<Rightarrow> pystr \<Rightarrow> (pystr \<times> pystr) list \<Rightarrow> response io" where
  "requests_get_io env url hs w =
     (let w' = w\<lparr>requests := requests w @ [(url, hs)]\<rparr>
      in case requests_get env (length (requests w)) url hs of
           None \<Rightarrow> (Inl RequestException, w')
         | Some r \<Rightarrow> (Inr r, w'))"

text \<open>
  The loop of lines 80-85 over \<open>response.iter_content(chunk_size=4096)\<close>. The progress
  bar is recorded by the two numbers it is drawn from; \<open>50 * dl / total_length\<close>
  raises when the declared length is zero.
\<close>

fun write_chunks :: "pystr \<Rightarrow> int \<Rightarrow> nat \<Rightarrow> bytes list \<Rightarrow> unit io" where
  "write_chunks file_name total_length dl [] = io_return ()"
| "write_chunks file_name total_length dl (data # rest) =
     io_bind (file_write file_name data) (\<lambda>_.
     if total_length = 0 then io_raise ZeroDivisionError
     else
       io_bind (print (Progress (dl + length data) total_length)) (\<lambda>_.
       write_chunks file_name total_length (dl + length data) rest))"

definition download :: "env \<Rightarrow> pystr \<Rightarrow> pystr \<Rightarrow> unit io" where
  "download env url file_name =
     io_bind (open_wb file_name) (\<lambda>_.
     io_bind (print (Downloading file_name)) (\<lambda>_.
     io_bind (requests_get_io env url headers) (\<lambda>response.
     case content_length response of
       None \<Rightarrow> file_write file_name (concat (iter_content response))
     | Some total_length \<Rightarrow>
         (case int_of_str env total_length of
            None \<Rightarrow> io_raise (ValueError ''invalid literal for int()'')
          | Some total_int \<Rightarrow>
              write_chunks file_name total_int 0 (iter_content response)))))"

subsection \<open>\<open>is_html_file\<close> (lines 88-95)\<close>

definition is_html_file :: "pystr \<Rightarrow> bool io" where
  "is_html_file dst =
     io_bind (read_prefix dst 10) (\<lambda>opener.
     if startswith (upper opener) (str ''<!DOCTYPE '') then io_return True
     else io_bind (print (NotDoctype opener)) (\<lambda>_. io_return False))"

subsection \<open>\<open>redownload\<close> (lines 98-212)\<close>

text \<open>
  Python's truth value of a variable that holds \<open>None\<close>, \<open>False\<close> or a string:
  false for \<open>None\<close>, \<open>False\<close> and the empty string.
\<close>

definition truthy :: "pystr option \<Rightarrow> bool" where
  "truthy v = (case v of None \<Rightarrow> False | Some s \<Rightarrow> s \<noteq> [])"

text \<open>
  Lines 178-200, the part of the loop body that obtains the file for one matching
  reference. It returns the new value of \<open>got\<close> and a tag for the branch taken, which
  the source shows only by its message: \<open>Skipping existing\<close> (line 184), \<open>mv\<close> (line
  188), \<open># saved\<close> (line 199), \<open>Error: failed to download\<close> (line 194).
  \<open>fetch\<close> is lines 178-184; \<open>fetch_absent\<close> is the \<open>elif\<close> and the \<open>else\<close> of
  lines 185-200, taken when \<open>keep\<close> is false.
\<close>

datatype outcome = SkippedExisting | ReusedLeftover | Downloaded | FailedHtmlAgain

text \<open>The test \<open>encoded_dst and os.path.isfile(encoded_dst)\<close> of line 185.\<close>

definition leftover :: "world \<Rightarrow> pystr option \<Rightarrow> pystr option" where
  "leftover w encoded_dst =
     (case encoded_dst of
        None \<Rightarrow> None
      | Some e \<Rightarrow> if e \<noteq> [] \<and> isfile w e then Some e else None)"

definition fetch_absent ::
  "env \<Rightarrow> pystr \<Rightarrow> pystr \<Rightarrow> pystr option \<Rightarrow> pystr option \<Rightarrow> (outcome \<times> pystr option) io" where
  "fetch_absent env src dst encoded_dst got =
     io_bind (io_get (\<lambda>w. leftover w encoded_dst)) (\<lambda>lo.
     case lo of
       Some e \<Rightarrow>
         io_bind (shutil_move e dst) (\<lambda>_.
         io_bind (print (Mv e dst)) (\<lambda>_.
         io_return (ReusedLeftover, Some e)))
     | None \<Rightarrow>
         io_bind (print (HashDownloading src)) (\<lambda>_.
         io_bind (download env src dst) (\<lambda>_.
         io_bind (is_html_file dst) (\<lambda>h.
         if h then
           io_bind (print (ErrorFailed src)) (\<lambda>_.
           io_bind (os_remove dst) (\<lambda>_.
           io_return (FailedHtmlAgain, got)))
         else
           io_bind (print (Saved dst)) (\<lambda>_.
           io_return (Downloaded, Some src))))))"

definition fetch ::
  "env \<Rightarrow> pystr \<Rightarrow> pystr \<Rightarrow> pystr option \<Rightarrow> pystr option \<Rightarrow> (outcome \<times> pystr option) io" where
  "fetch env src dst encoded_dst got =
     io_bind (io_get (\<lambda>w. isfile w dst)) (\<lambda>keep.
     io_bind
       (if keep then
          io_bind (is_html_file dst) (\<lambda>h.
          if h then io_bind (os_remove dst) (\<lambda>_. io_return False)
          else io_return True)
        else io_return False) (\<lambda>keep.
     if keep then
       io_bind (print (SkippingExisting dst)) (\<lambda>_.
       io_return (SkippedExisting, got))
     else fetch_absent env src dst encoded_dst got))"

text \<open>
  The loop body (lines 153-200) for one element; \<open>acc\<close> is the pair of the loop's
  variables \<open>got\<close> and \<open>found_url\<close> (\<open>None\<close> for their initial \<open>None\<close> and
  \<open>False\<close>).
\<close>

definition redownload_elt ::
  "env \<Rightarrow> pystr list \<Rightarrow> pystr option \<Rightarrow> pystr option \<Rightarrow> elt \<Rightarrow>
   pystr option \<times> pystr option \<Rightarrow> (pystr option \<times> pystr option) io" where
  "redownload_elt env dot_exts folder binary_path e acc =
     (case acc of (got, found_url) \<Rightarrow>
      case map_of (attrib e) (str ''src'') of
        None \<Rightarrow>
          io_bind (io_when (tag e = str ''source:'') (print (SrcNotIn e))) (\<lambda>_.
          io_return (got, found_url))
      | Some src \<Rightarrow>
          let found_url = Some src;
              slash_i = rfind src slash;
              encoded_name = drop (nat (slash_i + 1)) src;
              name = unquote env encoded_name;
              dot_ext = snd (splitext src)
          in if lower (unicode_lower env) dot_ext \<notin> set dot_exts then
               io_return (got, found_url)
             else
               let encoded_dst =
                     (case folder of
                        None \<Rightarrow> None
                      | Some f \<Rightarrow> if f \<noteq> [] then Some (join f encoded_name) else None)
               in case binary_path of
                    None \<Rightarrow>
                      (case folder of
                         None \<Rightarrow> io_raise TypeError
                       | Some f \<Rightarrow>
                           io_bind (fetch env src (join f name) encoded_dst got) (\<lambda>r.
                           io_return (snd r, found_url)))
                  | Some dst \<Rightarrow>
                      if truthy got then
                        io_bind (print (WarnSkipping dst (case got of Some g \<Rightarrow> g | None \<Rightarrow> []))) (\<lambda>_.
                        io_return (got, found_url))
                      else
                        io_bind (fetch env src dst encoded_dst got) (\<lambda>r.
                        io_return (snd r, found_url)))"

fun redownload_loop ::
  "env \<Rightarrow> pystr list \<Rightarrow> pystr option \<Rightarrow> pystr option \<Rightarrow> elt list \<Rightarrow>
   pystr option \<times> pystr option \<Rightarrow> (pystr option \<times> pystr option) io" where
  "redownload_loop env dot_exts folder binary_path [] acc = io_return acc"
| "redownload_loop env dot_exts folder binary_path (e # es) acc =
     io_bind (redownload_elt env dot_exts folder binary_path e acc)
       (redownload_loop env dot_exts folder binary_path es)"

text \<open>\<open>lh.parse(html_path)\<close> followed by \<open>doc.iter()\<close>.\<close>

definition lh_parse_path :: "env \<Rightarrow> pystr \<Rightarrow> elt list io" where
  "lh_parse_path env html_path w =
     (case lookup w html_path of
        None \<Rightarrow> (Inl (FileNotFoundError html_path), w)
      | Some Dir \<Rightarrow> (Inl (IsADirectoryError html_path), w)
      | Some (File c) \<Rightarrow>
          (case lh_parse env c of
             None \<Rightarrow> (Inl ParserError, w)
           | Some doc \<Rightarrow> (Inr doc, w)))"

text \<open>Lines 127-136: the check of the two destination options, and the folder.\<close>

definition folder_conflict :: error where
  "folder_conflict =
     ValueError ''Destination folder cannot be set because binary_path is set''"

definition choose_folder :: "pystr option \<Rightarrow> pystr option \<Rightarrow> pystr option io" where
  "choose_folder folder binary_path =
     (case binary_path of
        Some b \<Rightarrow>
          (case folder of
             Some f \<Rightarrow> io_raise folder_conflict
           | None \<Rightarrow> io_return None)
      | None \<Rightarrow>
          (let folder = (case folder of None \<Rightarrow> str ''media'' | Some f \<Rightarrow> f)
           in io_bind (io_get (\<lambda>w. isdir w folder)) (\<lambda>d.
              io_bind (io_when (\<not> d) (os_makedirs folder)) (\<lambda>_.
              io_return (Some folder)))))"

text \<open>Lines 137-140: the archive folder is created only when it is the default.\<close>

definition choose_html_folder :: "pystr option \<Rightarrow> pystr io" where
  "choose_html_folder html_folder =
     (case html_folder of
        None \<Rightarrow>
          (let html_folder = str ''html''
           in io_bind (io_get (\<lambda>w. isdir w html_folder)) (\<lambda>d.
              io_bind (io_when (\<not> d) (os_makedirs html_folder)) (\<lambda>_.
              io_return html_folder)))
      | Some h \<Rightarrow> io_return h)"

text \<open>Lines 127-140 together: the folders that the rest of \<open>redownload\<close> uses.\<close>

definition configure ::
  "pystr option \<Rightarrow> pystr option \<Rightarrow> pystr option \<Rightarrow> (pystr option \<times> pystr) io" where
  "configure folder binary_path html_folder =
     io_bind (choose_folder folder binary_path) (\<lambda>folder.
     io_bind (choose_html_folder html_folder) (\<lambda>html_folder.
     io_return (folder, html_folder)))"

text \<open>Line 142: \<open>dot_exts = ["."+ext.lower() for ext in extensions]\<close>.\<close>

definition dot_exts_of :: "env \<Rightarrow> pystr list \<Rightarrow> pystr list" where
  "dot_exts_of env extensions =
     map (\<lambda>ext. str ''.'' @ lower (unicode_lower env) ext) extensions"

definition redownload ::
  "env \<Rightarrow> pystr \<Rightarrow> pystr list \<Rightarrow> pystr option \<Rightarrow> pystr option \<Rightarrow> pystr option \<Rightarrow> unit io" where
  "redownload env html_path extensions folder binary_path html_folder =
     io_bind (configure folder binary_path html_folder) (\<lambda>(folder, html_folder).
     io_bind (lh_parse_path env html_path) (\<lambda>doc.
     let dot_exts = dot_exts_of env extensions;
         old_name = split_tail html_path
     in io_bind (redownload_loop env dot_exts folder binary_path doc (None, None))
          (\<lambda>(got, found_url).
        io_bind
          (io_when (truthy got)
             (let moved_old = join html_folder old_name
              in io_bind (shutil_move html_path moved_old) (\<lambda>_.
                 print (Mv html_path moved_old)))) (\<lambda>_.
        io_when (\<not> truthy found_url) (print (WarnNoSource html_path))))))"

subsection \<open>\<open>redownload_all\<close> (lines 215-233) and \<open>undo\<close> (lines 45-52)\<close>

definition listdir_io :: "env \<Rightarrow> pystr \<Rightarrow> pystr list io" where
  "listdir_io env p w =
     (case os_listdir env w p of
        None \<Rightarrow> (Inl (FileNotFoundError p), w)
      | Some subs \<Rightarrow> (Inr subs, w))"

fun redownload_all_loop :: "env \<Rightarrow> pystr \<Rightarrow> pystr list \<Rightarrow> unit io" where
  "redownload_all_loop env parent [] = io_return ()"
| "redownload_all_loop env parent (sub # subs) =
     io_bind
       (if startswith sub pseudo_protocol then
          (let new = drop 5 sub;
               sub_path = join parent sub
           in redownload env sub_path [str ''mid''] None None None)
        else if startswith sub pseudo_colon then
          (let new = drop 1 sub
           in io_bind (shutil_move sub new) (\<lambda>_. print (MvQ sub new)))
        else print (HashSkipping sub)) (\<lambda>_.
     redownload_all_loop env parent subs)"

definition redownload_all :: "env \<Rightarrow> pystr \<Rightarrow> unit io" where
  "redownload_all env parent =
     (let parent = realpath env parent
      in io_bind (listdir_io env parent) (redownload_all_loop env parent))"

fun undo_loop :: "env \<Rightarrow> pystr list \<Rightarrow> unit io" where
  "undo_loop env [] = io_return ()"
| "undo_loop env (sub # subs) =
     io_bind
       (io_when (endswith (lower (unicode_lower env) sub) (str ''.mid'') \<and>
                 \<not> startswith sub pseudo_protocol)
          (shutil_move sub (mark sub))) (\<lambda>_.
     undo_loop env subs)"

definition undo :: "env \<Rightarrow> unit io" where
  "undo env = io_bind (listdir_io env (str ''.'')) (undo_loop env)"

definition main_cli :: "env \<Rightarrow> int io" where
  "main_cli env = io_bind (redownload_all env (str ''.'')) (\<lambda>_. io_return 0)"

section \<open>Notions used in the statements\<close>

text \<open>
  The value of an element's \<open>src\<close> attribute, if it has one; whether the loop body
  passes an element by (no \<open>src\<close>, line 156, or an extension outside the targets,
  line 165); the notes printed for elements without \<open>src\<close> (line 155); and the value
  of \<open>found_url\<close> after a run over elements, which is the last \<open>src\<close> seen.
\<close>

definition src_of :: "elt \<Rightarrow> pystr option" where
  "src_of e = map_of (attrib e) (str ''src'')"

definition passed_by :: "env \<Rightarrow> pystr list \<Rightarrow> elt \<Rightarrow> bool" where
  "passed_by env dot_exts e =
     (case src_of e of
        None \<Rightarrow> True
      | Some src \<Rightarrow> lower (unicode_lower env) (snd (splitext src)) \<notin> set dot_exts)"

definition src_notes :: "elt list \<Rightarrow> msg list" where
  "src_notes doc =
     map SrcNotIn (filter (\<lambda>e. src_of e = None \<and> tag e = str ''source:'') doc)"

fun last_src :: "pystr option \<Rightarrow> elt list \<Rightarrow> pystr option" where
  "last_src found_url [] = found_url"
| "last_src found_url (e # es) =
     last_src (case src_of e of None \<Rightarrow> found_url | Some src \<Rightarrow> Some src) es"

text \<open>The last path segment of a URL (lines 159-160), before percent-decoding.\<close>

definition url_name :: "pystr \<Rightarrow> pystr" where
  "url_name src = drop (nat (rfind src slash + 1)) src"




text \<open>A statement that never raises the error of line 129, in any world.\<close>

definition no_conflict :: "'a io \<Rightarrow> bool" where
  "no_conflict m = (\<forall>w. fst (m w) \<noteq> Inl folder_conflict)"

text \<open>
  The format that the docstring of \<open>download\<close> (lines 66-68) and the specification
  ask of the value of the \<open>User-Agent\<close> header, written from their words: \<open><product>/<version> (<contact>) <library>/<version>\<close>. A product is two
  tokens with a slash between them, a token is a non-empty string of the token
  characters of HTTP (letters, digits and \<open>!#$%&'*+-.^_`|~\<close>), and the contact is a
  non-empty string without parentheses.
\<close>

definition tchar :: "nat \<Rightarrow> bool" where
  "tchar c =
     ((48 \<le> c \<and> c \<le> 57) \<or> (65 \<le> c \<and> c \<le> 90) \<or> (97 \<le> c \<and> c \<le> 122) \<or>
      c \<in> set (str ''!#$%&*+-.^_`|~'') \<or> c = 39)"

definition ua_token :: "pystr \<Rightarrow> bool" where
  "ua_token s = (s \<noteq> [] \<and> list_all tchar s)"

definition ua_product :: "pystr \<Rightarrow> bool" where
  "ua_product p =
     (let name = takeWhile (\<lambda>c. c \<noteq> slash) p
      in ua_token name \<and> length name < length p \<and> ua_token (drop (length name + 1) p))"

definition spec_user_agent_format :: "pystr \<Rightarrow> bool" where
  "spec_user_agent_format s =
     (let p1 = takeWhile (\<lambda>c. c \<noteq> 32) s;
          r1 = drop (length p1) s;
          r2 = drop 2 r1;
          contact = takeWhile (\<lambda>c. c \<noteq> 41) r2;
          r3 = drop (length contact) r2
      in ua_product p1 \<and> startswith r1 (str '' ('') \<and>
         contact \<noteq> [] \<and> 40 \<notin> set contact \<and>
         startswith r3 (str '') '') \<and> ua_product (drop 2 r3))"

section \<open>Concrete inputs\<close>

text \<open>
  A page as in the module's docstring: an \<open>audio\<close> element and three \<open>source\<close>
  elements, two transcoded renditions and the original MIDI file.
\<close>

definition guajeo_doc :: "elt list" where
  "guajeo_doc =
     [\<lparr>tag = str ''audio'', attrib = [(str ''id'', str ''mwe_player_0'')]\<rparr>,
      \<lparr>tag = str ''source'', attrib = [(str ''src'', str ''https://u.org/t/g.mid/g.mid.mp3'')]\<rparr>,
      \<lparr>tag = str ''source'', attrib = [(str ''src'', str ''https://u.org/t/g.mid/g.mid.ogg'')]\<rparr>,
      \<lparr>tag = str ''source'', attrib = [(str ''src'', str ''https://u.org/a/g.mid'')]\<rparr>]"

text \<open>
  Libraries for the examples: no percent escapes to decode, every page parses to
  \<open>guajeo_doc\<close>, the server answers every request with the four bytes \<open>MThd\<close> and
  no declared length, the directory listing is the one marked file.
\<close>

definition example_env :: env where
  "example_env =
     \<lparr>unquote = (\<lambda>s. s),
      unicode_lower = (\<lambda>s. s),
      lh_parse = (\<lambda>c. Some guajeo_doc),
      requests_get = (\<lambda>k url hs. Some \<lparr>content_length = None, iter_content = [str ''MThd'']\<rparr>),
      int_of_str = (\<lambda>s. None),
      os_listdir = (\<lambda>w p. Some [mark (str ''g.mid'')]),
      realpath = (\<lambda>p. str ''/d'')\<rparr>"

definition page :: bytes where
  "page = str ''<!DOCTYPE html><html>''"

text \<open>
  The path of the marked page in the directory \<open>/d\<close>, and a world with that page
  only, before the first run.
\<close>

definition marked_path :: pystr where
  "marked_path = str ''/d/File'' @ [720] @ str ''g.mid''"

definition fresh_world :: world where
  "fresh_world =
     \<lparr>nodes = [marked_path \<mapsto> File page],
      stdout = [],
      requests = []\<rparr>"

text \<open>
  A page without any \<open>src\<close> attribute, and a page whose only \<open>src\<close> is the empty
  string, with the libraries that parse every file to them.
\<close>

definition plain_doc :: "elt list" where
  "plain_doc =
     [\<lparr>tag = str ''html'', attrib = []\<rparr>,
      \<lparr>tag = str ''body'', attrib = [(str ''class'', str ''x'')]\<rparr>,
      \<lparr>tag = str ''source:'', attrib = []\<rparr>]"

definition empty_src_doc :: "elt list" where
  "empty_src_doc =
     [\<lparr>tag = str ''html'', attrib = []\<rparr>,
      \<lparr>tag = str ''source'', attrib = [(str ''src'', [])]\<rparr>]"

definition plain_env :: env where
  "plain_env = example_env\<lparr>lh_parse := (\<lambda>c. Some plain_doc)\<rparr>"

definition empty_src_env :: env where
  "empty_src_env = example_env\<lparr>lh_parse := (\<lambda>c. Some empty_src_doc)\<rparr>"

text \<open>The world after the destination folder has been created.\<close>

definition media_world :: world where
  "media_world = fresh_world\<lparr>nodes := (nodes fresh_world)(str ''media'' \<mapsto> Dir)\<rparr>"

text \<open>
  Worlds for the branches of the fetch: the destination is there and binary, is
  there and markup, a file with the encoded name is left over; and a server that
  answers with a page.
\<close>

definition mid_url :: pystr where
  "mid_url = str ''https://u.org/a/g.mid''"

definition mid_dst :: pystr where
  "mid_dst = str ''media/g.mid''"

definition skip_world :: world where
  "skip_world = media_world\<lparr>nodes := (nodes media_world)(mid_dst \<mapsto> File (str ''MThd''))\<rparr>"




text \<open>Where the page of \<open>marked_path\<close> is archived by default.\<close>

definition archived_path :: pystr where
  "archived_path = str ''html/File'' @ [720] @ str ''g.mid''"

section \<open>Basic facts\<close>

lemmas io_defs = io_return_def io_raise_def io_bind_def io_get_def io_when_def print_def

lemma length_doctype: "length (str ''<!DOCTYPE '') = 10"
  by (simp add: str_def)

lemma is_html_file_eq:
  assumes "lookup w dst = Some (File c)"
  shows "is_html_file dst w =
     (if startswith (upper (take 10 c)) (str ''<!DOCTYPE '') then (Inr True, w)
      else (Inr False, w\<lparr>stdout := stdout w @ [NotDoctype (take 10 c)]\<rparr>))"
  using assms by (simp add: is_html_file_def read_prefix_def io_defs)

lemma startswith_upper_take:
  "startswith (upper (take 10 c)) (str ''<!DOCTYPE '') = startswith (upper c) (str ''<!DOCTYPE '')"
  by (simp add: startswith_def length_doctype upper_def take_map)

lemma upper_doctype: "upper (str ''<!DOCTYPE '') = str ''<!DOCTYPE ''"
  by (simp add: upper_def byte_upper_def str_def)

section \<open>The loop over elements that are passed by\<close>

lemma io_bind_assoc: "io_bind (io_bind m f) g = io_bind m (\<lambda>x. io_bind (f x) g)"
  by (rule ext) (simp add: io_bind_def split: prod.splits sum.splits)

lemma io_bind_return_left: "io_bind (io_return x) f = f x"
  by (rule ext) (simp add: io_bind_def io_return_def)

lemma redownload_loop_append:
  "redownload_loop env dx folder bp (xs @ ys) acc =
     io_bind (redownload_loop env dx folder bp xs acc) (redownload_loop env dx folder bp ys)"
proof (induction xs arbitrary: acc)
  case Nil
  show ?case by (simp add: io_bind_return_left)
next
  case (Cons x xs)
  have "redownload_loop env dx folder bp (xs @ ys) =
      (\<lambda>a. io_bind (redownload_loop env dx folder bp xs a) (redownload_loop env dx folder bp ys))"
    by (rule ext) (rule Cons.IH)
  then show ?case by (simp add: io_bind_assoc)
qed

lemma redownload_elt_passed_by:
  assumes "passed_by env dx e"
  shows "redownload_elt env dx folder bp e (got, fu) w =
     (Inr (got, last_src fu [e]), w\<lparr>stdout := stdout w @ src_notes [e]\<rparr>)"
  using assms
  by (auto simp: redownload_elt_def passed_by_def src_of_def src_notes_def io_defs Let_def
      split: option.splits)

lemma src_notes_Cons: "src_notes (e # es) = src_notes [e] @ src_notes es"
  by (simp add: src_notes_def)

lemma redownload_loop_passed_by:
  assumes "list_all (passed_by env dx) doc"
  shows "redownload_loop env dx folder bp doc (got, fu) w =
     (Inr (got, last_src fu doc), w\<lparr>stdout := stdout w @ src_notes doc\<rparr>)"
  using assms
proof (induction doc arbitrary: fu w)
  case Nil
  then show ?case by (simp add: io_return_def src_notes_def)
next
  case (Cons e es)
  then have e: "passed_by env dx e" and es: "list_all (passed_by env dx) es"
    by simp_all
  show ?case
    using Cons.IH [OF es]
    by (simp add: io_bind_def redownload_elt_passed_by [OF e] src_notes_Cons [of e es])
qed


lemma os_makedirs_keeps:
  "os_makedirs p w = (r, w1) \<Longrightarrow>
     stdout w1 = stdout w \<and> requests w1 = requests w \<and>
     (lookup w q = Some n \<longrightarrow> lookup w1 q = Some n)"
  by (auto simp: os_makedirs_def lookup_def split: if_splits)

lemma choose_folder_keeps:
  assumes "choose_folder folder bp w = (r, w1)"
  shows "stdout w1 = stdout w \<and> requests w1 = requests w \<and>
     (lookup w q = Some n \<longrightarrow> lookup w1 q = Some n)"
proof (cases bp)
  case (Some b)
  with assms show ?thesis
    by (cases folder) (auto simp: choose_folder_def io_defs)
next
  case None
  obtain f where f: "f = (case folder of None \<Rightarrow> str ''media'' | Some f \<Rightarrow> f)" by simp
  show ?thesis
  proof (cases "isdir w f")
    case True
    with assms None f show ?thesis
      by (auto simp: choose_folder_def io_defs Let_def)
  next
    case False
    obtain r' w' where m: "os_makedirs f w = (r', w')" by (cases "os_makedirs f w")
    from assms None f False m have "w1 = w'"
      by (cases r') (auto simp: choose_folder_def io_defs Let_def)
    with os_makedirs_keeps [OF m] show ?thesis by simp
  qed
qed

lemma choose_html_folder_keeps:
  assumes "choose_html_folder hf w = (r, w1)"
  shows "stdout w1 = stdout w \<and> requests w1 = requests w \<and>
     (lookup w q = Some n \<longrightarrow> lookup w1 q = Some n)"
proof (cases hf)
  case (Some h)
  with assms show ?thesis
    by (auto simp: choose_html_folder_def io_defs)
next
  case None
  show ?thesis
  proof (cases "isdir w (str ''html'')")
    case True
    with assms None show ?thesis
      by (auto simp: choose_html_folder_def io_defs Let_def)
  next
    case False
    obtain r' w' where m: "os_makedirs (str ''html'') w = (r', w')"
      by (cases "os_makedirs (str ''html'') w")
    from assms None False m have "w1 = w'"
      by (cases r') (auto simp: choose_html_folder_def io_defs Let_def)
    with os_makedirs_keeps [OF m] show ?thesis by simp
  qed
qed

lemma configure_keeps:
  assumes "configure folder bp hf w = (r, w2)"
  shows "stdout w2 = stdout w \<and> requests w2 = requests w \<and>
     (lookup w q = Some n \<longrightarrow> lookup w2 q = Some n)"
proof -
  obtain r1 w1 where c1: "choose_folder folder bp w = (r1, w1)"
    by (cases "choose_folder folder bp w")
  show ?thesis
  proof (cases r1)
    case (Inl e)
    with c1 assms have "w2 = w1" by (simp add: configure_def io_bind_def)
    with choose_folder_keeps [OF c1] show ?thesis by simp
  next
    case (Inr f')
    obtain r2 w3 where c2: "choose_html_folder hf w1 = (r2, w3)"
      by (cases "choose_html_folder hf w1")
    from c1 c2 Inr assms have "w2 = w3"
      by (cases r2) (simp_all add: configure_def io_bind_def io_return_def)
    with choose_folder_keeps [OF c1] choose_html_folder_keeps [OF c2] show ?thesis by simp
  qed
qed

lemma redownload_passed_by:
  assumes f: "lookup w html_path = Some (File c)"
    and p: "lh_parse env c = Some doc"
    and s: "list_all (passed_by env (dot_exts_of env extensions)) doc"
  shows "redownload env html_path extensions folder bp hf w =
     (case configure folder bp hf w of
        (Inl e, w2) \<Rightarrow> (Inl e, w2)
      | (Inr fh, w2) \<Rightarrow>
          (Inr (), w2\<lparr>stdout := stdout w2 @ src_notes doc @
             (if truthy (last_src None doc) then [] else [WarnNoSource html_path])\<rparr>))"
proof -
  obtain r w2 where c: "configure folder bp hf w = (r, w2)"
    by (cases "configure folder bp hf w")
  show ?thesis
  proof (cases r)
    case (Inl e)
    with c show ?thesis by (simp add: redownload_def io_bind_def)
  next
    case (Inr fh)
    obtain f' h' where fh: "fh = (f', h')" by (cases fh)
    have "lookup w2 html_path = Some (File c)"
      using configure_keeps [OF c] f by blast
    then have parse: "lh_parse_path env html_path w2 = (Inr doc, w2)"
      using p by (simp add: lh_parse_path_def)
    show ?thesis
      using c Inr fh parse
      by (simp add: redownload_def io_bind_def Let_def redownload_loop_passed_by [OF s]
          io_when_def io_return_def print_def truthy_def)
  qed
qed

lemma last_src_empty:
  "list_all (\<lambda>e. src_of e = None \<or> src_of e = Some []) doc \<Longrightarrow>
   last_src fu doc = (if list_ex (\<lambda>e. src_of e = Some []) doc then Some [] else fu)"
  by (induction doc arbitrary: fu) auto

lemma splitext_empty: "splitext [] = ([], [])"
  by (simp add: splitext_def)

lemma empty_not_dot_ext: "[] \<notin> set (dot_exts_of env extensions)"
  by (auto simp: dot_exts_of_def str_def)

lemma passed_by_empty:
  "src_of e = None \<or> src_of e = Some [] \<Longrightarrow> passed_by env (dot_exts_of env extensions) e"
  by (auto simp: passed_by_def splitext_empty lower_def is_ascii_def empty_not_dot_ext)

lemma lookup_fresh_world: "lookup fresh_world marked_path = Some (File page)"
  by (simp add: lookup_def fresh_world_def marked_path_def str_def)

lemma configure_fresh_world:
  "configure None None None fresh_world =
     (Inr (Some (str ''media''), str ''html''),
      fresh_world\<lparr>nodes := (nodes fresh_world)(str ''media'' \<mapsto> Dir, str ''html'' \<mapsto> Dir)\<rparr>)"
  by (simp add: configure_def choose_folder_def choose_html_folder_def io_defs isdir_def
      lookup_def os_makedirs_def fresh_world_def marked_path_def str_def Let_def)

lemma redownload_elt_found_url:
  "src_of e = Some src \<Longrightarrow>
   redownload_elt env dx folder bp e (got, fu) = redownload_elt env dx folder bp e (got, fu')"
  by (simp add: redownload_elt_def src_of_def)

lemma redownload_elt_found_url_result:
  assumes "src_of e = Some src" "redownload_elt env dx folder bp e (got, fu) w = (Inr r, w1)"
  shows "snd r = Some src"
  using assms
  by (auto simp: redownload_elt_def src_of_def Let_def io_defs
      split: if_splits option.splits prod.splits sum.splits)

lemma dot_exts_of_mid:
  "map (lower (unicode_lower env)) extensions = [str ''mid''] \<Longrightarrow>
   dot_exts_of env extensions = [str ''.mid'']"
  by (cases extensions) (auto simp: dot_exts_of_def str_def)

lemmas eval_defs =
  redownload_def configure_def choose_folder_def choose_html_folder_def lh_parse_path_def
  dot_exts_of_def redownload_elt_def fetch_def fetch_absent_def leftover_def download_def
  requests_get_io_def
  is_html_file_def read_prefix_def open_wb_def file_write_def shutil_move_def os_rename_def
  os_remove_def os_makedirs_def isfile_def isdir_def lookup_def truthy_def
  io_defs Let_def join_def split_tail_def splitext_def lower_def is_ascii_def ascii_lower_def
  upper_def byte_upper_def startswith_def endswith_def basename_def

section \<open>The fetch, branch by branch\<close>

lemma lookup_other_fields:
  "lookup (w\<lparr>stdout := s\<rparr>) p = lookup w p"
  "lookup (w\<lparr>requests := q\<rparr>) p = lookup w p"
  "isfile (w\<lparr>stdout := s\<rparr>) p = isfile w p"
  "isfile (w\<lparr>requests := q\<rparr>) p = isfile w p"
  "isdir (w\<lparr>stdout := s\<rparr>) p = isdir w p"
  "isdir (w\<lparr>requests := q\<rparr>) p = isdir w p"
  by (simp_all add: lookup_def isfile_def isdir_def)

lemma leftover_stdout: "leftover (w\<lparr>stdout := s\<rparr>) e = leftover w e"
  by (cases e) (simp_all add: leftover_def lookup_other_fields)







lemma leftover_Some: "leftover w enc = Some e \<Longrightarrow> enc = Some e \<and> e \<noteq> [] \<and> isfile w e"
  by (auto simp: leftover_def split: option.splits if_splits)


lemma write_chunks_requests:
  "requests (snd (write_chunks f n dl chunks w)) = requests w"
  by (induction chunks arbitrary: dl w) (simp_all add: io_defs file_write_def)


lemma download_requests:
  assumes "dst \<noteq> []" "\<not> isdir w dst"
  shows "requests (snd (download env url dst w)) = requests w @ [(url, headers)]"
  using assms
  by (simp add: download_def io_defs open_wb_def requests_get_io_def Let_def file_write_def
      write_chunks_requests lookup_other_fields split: option.splits)

lemma download_blocked:
  assumes "dst = [] \<or> isdir w dst"
  shows "requests (snd (download env url dst w)) = requests w"
  using assms
  by (auto simp: download_def io_defs open_wb_def)










lemma media_world_simps:
  "lookup media_world mid_dst = None" "\<not> isfile media_world mid_dst" "\<not> isdir media_world mid_dst"
  "mid_dst \<noteq> []" "requests media_world = []" "stdout media_world = []"
  "leftover media_world (Some mid_dst) = None"
  by (simp_all add: media_world_def fresh_world_def marked_path_def mid_dst_def lookup_def
      isfile_def isdir_def leftover_def str_def)

section \<open>The configuration error is raised in one place\<close>

lemma nc_bind:
  assumes "no_conflict m" and "\<And>x. no_conflict (f x)"
  shows "no_conflict (io_bind m f)"
  unfolding no_conflict_def
proof
  fix w
  obtain r w1 where p: "m w = (r, w1)" by (cases "m w")
  show "fst (io_bind m f w) \<noteq> Inl folder_conflict"
  proof (cases r)
    case (Inl e)
    with p assms(1) show ?thesis by (auto simp: io_bind_def no_conflict_def dest: spec [of _ w])
  next
    case (Inr x)
    with p assms(2) [of x] show ?thesis by (simp add: io_bind_def no_conflict_def)
  qed
qed

lemma nc_prim:
  "no_conflict (io_return x)"
  "no_conflict (io_get g)"
  "no_conflict (print msg)"
  "no_conflict (os_makedirs p)"
  "no_conflict (os_remove p)"
  "no_conflict (os_rename p q)"
  "no_conflict (open_wb p)"
  "no_conflict (file_write p d)"
  "no_conflict (read_prefix p n)"
  "no_conflict (requests_get_io env url hs)"
  "no_conflict (lh_parse_path env p)"
  "no_conflict (io_raise TypeError)"
  "no_conflict (io_raise ZeroDivisionError)"
  "no_conflict (io_raise (ValueError ''invalid literal for int()''))"
  by (simp_all add: no_conflict_def io_defs os_makedirs_def os_remove_def os_rename_def
      open_wb_def file_write_def read_prefix_def requests_get_io_def lh_parse_path_def
      folder_conflict_def Let_def split: option.splits node.splits)

lemma nc_if: "no_conflict a \<Longrightarrow> no_conflict b \<Longrightarrow> no_conflict (if c then a else b)"
  by simp

lemma nc_when: "no_conflict m \<Longrightarrow> no_conflict (io_when b m)"
  by (simp add: io_when_def nc_prim)

lemma nc_option:
  "no_conflict a \<Longrightarrow> (\<And>x. no_conflict (f x)) \<Longrightarrow>
   no_conflict (case v of None \<Rightarrow> a | Some x \<Rightarrow> f x)"
  by (cases v) simp_all

lemma nc_prod: "(\<And>a b. no_conflict (f a b)) \<Longrightarrow> no_conflict (case p of (a, b) \<Rightarrow> f a b)"
  by (cases p) simp

lemmas nc_rules = nc_bind nc_prim nc_if nc_when nc_option nc_prod

lemma nc_shutil_move: "no_conflict (shutil_move p q)"
proof -
  have "fst (shutil_move p q w) \<noteq> Inl folder_conflict" for w
  proof -
    have "shutil_move p q w = (Inl (ShutilError (join q (basename p))), w) \<or>
        (\<exists>a b. shutil_move p q w = os_rename a b w)"
      by (auto simp: shutil_move_def Let_def)
    moreover have "fst (os_rename a b w) \<noteq> Inl folder_conflict" for a b
      using nc_prim(6) [of a b] by (simp add: no_conflict_def)
    ultimately show ?thesis
      by (auto simp: folder_conflict_def)
  qed
  then show ?thesis by (simp add: no_conflict_def)
qed

lemma nc_write_chunks: "no_conflict (write_chunks f n dl chunks)"
  by (induction chunks arbitrary: dl) (simp_all add: nc_rules)

lemma nc_download: "no_conflict (download env url f)"
  unfolding download_def by (intro nc_rules nc_write_chunks)

lemma nc_is_html_file: "no_conflict (is_html_file dst)"
  unfolding is_html_file_def by (intro nc_rules)

lemma nc_fetch_absent: "no_conflict (fetch_absent env src dst enc got)"
  unfolding fetch_absent_def by (intro nc_rules nc_shutil_move nc_download nc_is_html_file)

lemma nc_fetch: "no_conflict (fetch env src dst enc got)"
  unfolding fetch_def by (intro nc_rules nc_fetch_absent nc_is_html_file)

lemma nc_redownload_elt: "no_conflict (redownload_elt env dx folder bp e acc)"
  unfolding redownload_elt_def Let_def by (intro nc_rules nc_fetch)

lemma nc_redownload_loop: "no_conflict (redownload_loop env dx folder bp doc acc)"
  by (induction doc arbitrary: acc) (simp_all add: nc_rules nc_redownload_elt)

lemma nc_choose_html_folder: "no_conflict (choose_html_folder hf)"
  unfolding choose_html_folder_def Let_def by (intro nc_rules)

lemma nc_choose_folder:
  "folder = None \<or> bp = None \<Longrightarrow> no_conflict (choose_folder folder bp)"
  unfolding choose_folder_def Let_def
  by (cases bp; cases folder) (simp_all add: nc_rules)

lemma nc_redownload:
  assumes "folder = None \<or> bp = None"
  shows "no_conflict (redownload env html_path extensions folder bp hf)"
  unfolding redownload_def configure_def Let_def
  by (intro nc_rules nc_choose_folder [OF assms] nc_choose_html_folder nc_redownload_loop
      nc_shutil_move)

section \<open>The user agent string\<close>

lemma UA_format:
  "startswith UA (str ''User-Agent: '')" "\<not> spec_user_agent_format UA"
  "spec_user_agent_format (drop 12 UA)"
  "drop 12 UA = str ''FileReFollow/0.2 (https://github.com/Poikilos/filerefollow) filerefollow/0.2''"
  by (simp_all add: UA_def spec_user_agent_format_def ua_product_def ua_token_def tchar_def startswith_def
      str_def Let_def)

lemmas batch_defs =
  redownload_all_def listdir_io_def pseudo_protocol_def pseudo_colon_def mark_def

section \<open>Filename codec: the round trip\<close>

text \<open>
  C6. Unmarking a marked name gives the name back: \<open>unmark (mark n) = n\<close>, where
  \<open>mark\<close> prepends \<open>pseudo_protocol\<close> and \<open>unmark\<close> strips a recognised prefix.
  It holds for every name \<open>n\<close>, so in particular for every name that does not contain
  the marker; the second conjunct is the same for the legacy one-character marker.
\<close>

theorem unmark_mark_roundtrip:
  "unmark (mark n) = Some n \<and> unmark (pseudo_colon @ n) = Some n"
  by (simp add: unmark_def mark_def startswith_def pseudo_protocol_def pseudo_colon_def
      str_def)

theorem unmark_mark_roundtrip_witness:
  "unmark (mark (str ''2-3_guajeo.mid'')) = Some (str ''2-3_guajeo.mid'') \<and>
   mark (str ''g.mid'') = [70, 105, 108, 101, 720, 103, 46, 109, 105, 100]"
  using unmark_mark_roundtrip [of "str ''2-3_guajeo.mid''"]
  by (simp add: mark_def pseudo_protocol_def str_def)

section \<open>Format sniffer\<close>

text \<open>
  C7. For a regular file with contents \<open>c\<close>, \<open>is_html_file\<close> returns true exactly
  when the first 10 bytes of \<open>c\<close>, upper-cased, start with \<open><!DOCTYPE \<close>. Its answer
  is the same for any contents \<open>c'\<close> with the same first 10 bytes (it reads no more), a file that
  begins with the exact prefix is markup whatever follows, and a file whose
  upper-cased contents do not begin with the prefix is not markup. The file system
  and the network log are left as they are.
\<close>

theorem is_html_file_first_ten_bytes:
  "lookup w dst = Some (File c) \<Longrightarrow>
     fst (is_html_file dst w) = Inr (startswith (upper (take 10 c)) (str ''<!DOCTYPE '')) \<and>
     (take 10 c' = take 10 c \<longrightarrow>
        fst (is_html_file dst (w\<lparr>nodes := (nodes w)(dst \<mapsto> File c')\<rparr>)) =
          fst (is_html_file dst w)) \<and>
     fst (is_html_file dst (w\<lparr>nodes := (nodes w)(dst \<mapsto> File (str ''<!DOCTYPE '' @ rest))\<rparr>)) =
       Inr True \<and>
     (fst (is_html_file dst w) = Inr False) = (\<not> startswith (upper c) (str ''<!DOCTYPE '')) \<and>
     nodes (snd (is_html_file dst w)) = nodes w \<and>
     requests (snd (is_html_file dst w)) = requests w"
proof -
  assume f: "lookup w dst = Some (File c)"
  then have ne: "dst \<noteq> []"
    by (auto simp: lookup_def split: if_splits)
  have a: "lookup (w\<lparr>nodes := (nodes w)(dst \<mapsto> File c')\<rparr>) dst = Some (File c')"
    using ne by (simp add: lookup_def)
  have b: "lookup (w\<lparr>nodes := (nodes w)(dst \<mapsto> File (str ''<!DOCTYPE '' @ rest))\<rparr>) dst =
      Some (File (str ''<!DOCTYPE '' @ rest))"
    using ne by (simp add: lookup_def)
  have v: "startswith (upper (take 10 (str ''<!DOCTYPE '' @ rest))) (str ''<!DOCTYPE '')"
    using upper_doctype by (simp add: startswith_def length_doctype)
  show ?thesis
    unfolding is_html_file_eq [OF f] is_html_file_eq [OF a] is_html_file_eq [OF b]
    using v startswith_upper_take [of c] by auto
qed

theorem is_html_file_first_ten_bytes_witness:
  "lookup fresh_world marked_path = Some (File page) \<and>
   fst (is_html_file marked_path fresh_world) = Inr True \<and>
   fst (is_html_file marked_path
          (fresh_world\<lparr>nodes := (nodes fresh_world)
             (marked_path \<mapsto> File (str ''<!DOCTYPE '' @ [0, 255, 7]))\<rparr>)) =
     Inr True"
proof -
  have f: "lookup fresh_world marked_path = Some (File page)"
    by (simp add: lookup_def fresh_world_def marked_path_def str_def)
  have s: "startswith (upper (take 10 page)) (str ''<!DOCTYPE '')"
    by (simp add: startswith_def upper_def byte_upper_def page_def str_def)
  show ?thesis
    using f s is_html_file_first_ten_bytes [OF f, of page "[0, 255, 7]"] by simp
qed

section \<open>Conflicting destination options\<close>

text \<open>
  C8. When both \<open>binary_path\<close> and \<open>folder\<close> are set, \<open>redownload\<close> raises
  \<open>ValueError\<close> and the world is as it was: no file or directory is touched, nothing
  is printed and no request is sent.
\<close>

theorem redownload_both_options_raise:
  "redownload env html_path extensions (Some f) (Some b) html_folder w =
     (Inl (ValueError ''Destination folder cannot be set because binary_path is set''), w)"
  by (simp add: redownload_def configure_def choose_folder_def folder_conflict_def io_defs)

theorem redownload_both_options_raise_witness:
  "redownload example_env marked_path [str ''mid'']
     (Some (str ''media'')) (Some (str ''g.mid'')) None fresh_world =
     (Inl (ValueError ''Destination folder cannot be set because binary_path is set''),
      fresh_world)"
  by (rule redownload_both_options_raise)

section \<open>Documents without a usable reference\<close>

text \<open>
  C9. Let the page at \<open>html_path\<close> parse to a document in which no element has a
  \<open>src\<close> attribute. Then the loop ends with \<open>got\<close> and \<open>found_url\<close> as they
  started (nothing found, no reference seen), whatever the folders and the world.
  \<open>redownload\<close> does the configuration step (which can only create the two
  folders, or raise) and then only prints: its notes for elements without \<open>src\<close>
  and the warning that no source was found. The page is still at \<open>html_path\<close> with
  its contents, and no request is sent.
\<close>

theorem redownload_no_reference:
  assumes f: "lookup w html_path = Some (File c)"
    and p: "lh_parse env c = Some doc"
    and n: "list_all (\<lambda>e. src_of e = None) doc"
  shows "redownload_loop env dot_exts fo binary_path doc (None, None) w' =
           (Inr (None, None), w'\<lparr>stdout := stdout w' @ src_notes doc\<rparr>) \<and>
         redownload env html_path extensions folder binary_path html_folder w =
           (case configure folder binary_path html_folder w of
              (Inl e, w2) \<Rightarrow> (Inl e, w2)
            | (Inr fh, w2) \<Rightarrow>
                (Inr (), w2\<lparr>stdout := stdout w2 @ src_notes doc @ [WarnNoSource html_path]\<rparr>)) \<and>
         lookup (snd (redownload env html_path extensions folder binary_path html_folder w))
           html_path = Some (File c) \<and>
         requests (snd (redownload env html_path extensions folder binary_path html_folder w)) =
           requests w"
proof -
  have l: "last_src fu doc = fu" for fu
    using n by (induction doc arbitrary: fu) auto
  have pb: "list_all (passed_by env dx) doc" for dx
    using n by (induction doc) (auto simp: passed_by_def)
  obtain r w2 where c: "configure folder binary_path html_folder w = (r, w2)"
    by (cases "configure folder binary_path html_folder w")
  have k: "lookup w2 html_path = Some (File c)" "requests w2 = requests w"
    using configure_keeps [OF c] f by auto
  have ne: "html_path \<noteq> []"
    using f by (auto simp: lookup_def split: if_splits)
  have r: "redownload env html_path extensions folder binary_path html_folder w =
      (case configure folder binary_path html_folder w of
         (Inl e, w2) \<Rightarrow> (Inl e, w2)
       | (Inr fh, w2) \<Rightarrow>
           (Inr (), w2\<lparr>stdout := stdout w2 @ src_notes doc @ [WarnNoSource html_path]\<rparr>))"
    unfolding redownload_passed_by [OF f p pb] by (simp add: l truthy_def)
  have "lookup (snd (redownload env html_path extensions folder binary_path html_folder w))
      html_path = Some (File c) \<and>
    requests (snd (redownload env html_path extensions folder binary_path html_folder w)) =
      requests w"
    unfolding r using c k ne by (cases r) (auto simp: lookup_def)
  then show ?thesis
    using r redownload_loop_passed_by [OF pb, of dot_exts fo binary_path None None w'] l
    by simp
qed

theorem redownload_no_reference_witness:
  "lookup fresh_world marked_path = Some (File page) \<and>
   list_all (\<lambda>e. src_of e = None) plain_doc \<and>
   fst (redownload plain_env marked_path [str ''mid''] None None None fresh_world) = Inr () \<and>
   stdout (snd (redownload plain_env marked_path [str ''mid''] None None None fresh_world)) =
     [SrcNotIn \<lparr>tag = str ''source:'', attrib = []\<rparr>, WarnNoSource marked_path] \<and>
   lookup (snd (redownload plain_env marked_path [str ''mid''] None None None fresh_world))
     marked_path = Some (File page)"
proof -
  have p: "lh_parse plain_env page = Some plain_doc"
    by (simp add: plain_env_def)
  have n: "list_all (\<lambda>e. src_of e = None) plain_doc"
    by (simp add: plain_doc_def src_of_def str_def)
  have s: "src_notes plain_doc = [SrcNotIn \<lparr>tag = str ''source:'', attrib = []\<rparr>]"
    by (simp add: src_notes_def plain_doc_def src_of_def str_def)
  have o: "stdout fresh_world = []"
    by (simp add: fresh_world_def)
  have r: "redownload plain_env marked_path [str ''mid''] None None None fresh_world =
      (Inr (), fresh_world\<lparr>nodes := (nodes fresh_world)(str ''media'' \<mapsto> Dir, str ''html'' \<mapsto> Dir),
         stdout := [SrcNotIn \<lparr>tag = str ''source:'', attrib = []\<rparr>, WarnNoSource marked_path]\<rparr>)"
    using redownload_no_reference [OF lookup_fresh_world p n,
        where extensions = "[str ''mid'']" and folder = None and binary_path = None
          and html_folder = None]
    by (simp add: configure_fresh_world s o)
  have k: "lookup (fresh_world\<lparr>nodes := (nodes fresh_world)(str ''media'' \<mapsto> Dir, str ''html'' \<mapsto> Dir),
         stdout := [SrcNotIn \<lparr>tag = str ''source:'', attrib = []\<rparr>, WarnNoSource marked_path]\<rparr>)
       marked_path = Some (File page)"
    by (simp add: lookup_def fresh_world_def marked_path_def str_def)
  show ?thesis
    unfolding r using lookup_fresh_world n k by simp
qed

text \<open>
  C10. Let the page at \<open>html_path\<close> parse to a document in which every \<open>src\<close>
  attribute is the empty string, and there is one. Then the loop passes every element
  by without an error; it ends with \<open>got\<close> unset and \<open>found_url\<close> the empty
  string, which counts as false at line 210: \<open>redownload\<close> prints the warning that
  no source was found, exactly as for a document without any \<open>src\<close>. The page stays
  where it is and no request is sent.
\<close>

theorem redownload_empty_reference:
  assumes f: "lookup w html_path = Some (File c)"
    and p: "lh_parse env c = Some doc"
    and n: "list_all (\<lambda>e. src_of e = None \<or> src_of e = Some []) doc"
    and x: "list_ex (\<lambda>e. src_of e = Some []) doc"
  shows "redownload_loop env (dot_exts_of env extensions) fo binary_path doc (None, None) w' =
           (Inr (None, Some []), w'\<lparr>stdout := stdout w' @ src_notes doc\<rparr>) \<and>
         redownload env html_path extensions folder binary_path html_folder w =
           (case configure folder binary_path html_folder w of
              (Inl e, w2) \<Rightarrow> (Inl e, w2)
            | (Inr fh, w2) \<Rightarrow>
                (Inr (), w2\<lparr>stdout := stdout w2 @ src_notes doc @ [WarnNoSource html_path]\<rparr>)) \<and>
         lookup (snd (redownload env html_path extensions folder binary_path html_folder w))
           html_path = Some (File c) \<and>
         requests (snd (redownload env html_path extensions folder binary_path html_folder w)) =
           requests w"
proof -
  have l: "last_src None doc = Some []"
    using last_src_empty [OF n, of None] x by simp
  have pb: "list_all (passed_by env (dot_exts_of env extensions)) doc"
    using n by (induction doc) (auto intro: passed_by_empty)
  obtain r w2 where c: "configure folder binary_path html_folder w = (r, w2)"
    by (cases "configure folder binary_path html_folder w")
  have k: "lookup w2 html_path = Some (File c)" "requests w2 = requests w"
    using configure_keeps [OF c] f by auto
  have ne: "html_path \<noteq> []"
    using f by (auto simp: lookup_def split: if_splits)
  have r: "redownload env html_path extensions folder binary_path html_folder w =
      (case configure folder binary_path html_folder w of
         (Inl e, w2) \<Rightarrow> (Inl e, w2)
       | (Inr fh, w2) \<Rightarrow>
           (Inr (), w2\<lparr>stdout := stdout w2 @ src_notes doc @ [WarnNoSource html_path]\<rparr>))"
    unfolding redownload_passed_by [OF f p pb] by (simp add: l truthy_def)
  have "lookup (snd (redownload env html_path extensions folder binary_path html_folder w))
      html_path = Some (File c) \<and>
    requests (snd (redownload env html_path extensions folder binary_path html_folder w)) =
      requests w"
    unfolding r using c k ne by (cases r) (auto simp: lookup_def)
  then show ?thesis
    using r redownload_loop_passed_by [OF pb, of fo binary_path None None w'] l
    by simp
qed

theorem redownload_empty_reference_witness:
  "lookup fresh_world marked_path = Some (File page) \<and>
   list_all (\<lambda>e. src_of e = None \<or> src_of e = Some []) empty_src_doc \<and>
   list_ex (\<lambda>e. src_of e = Some []) empty_src_doc \<and>
   fst (redownload empty_src_env marked_path [str ''mid''] None None None fresh_world) = Inr () \<and>
   stdout (snd (redownload empty_src_env marked_path [str ''mid''] None None None fresh_world)) =
     [WarnNoSource marked_path] \<and>
   lookup (snd (redownload empty_src_env marked_path [str ''mid''] None None None fresh_world))
     marked_path = Some (File page)"
proof -
  have p: "lh_parse empty_src_env page = Some empty_src_doc"
    by (simp add: empty_src_env_def)
  have n: "list_all (\<lambda>e. src_of e = None \<or> src_of e = Some []) empty_src_doc"
    by (simp add: empty_src_doc_def src_of_def str_def)
  have x: "list_ex (\<lambda>e. src_of e = Some []) empty_src_doc"
    by (simp add: empty_src_doc_def src_of_def str_def)
  have s: "src_notes empty_src_doc = []"
    by (simp add: src_notes_def empty_src_doc_def src_of_def str_def)
  have o: "stdout fresh_world = []"
    by (simp add: fresh_world_def)
  have r: "redownload empty_src_env marked_path [str ''mid''] None None None fresh_world =
      (Inr (), fresh_world\<lparr>nodes := (nodes fresh_world)(str ''media'' \<mapsto> Dir, str ''html'' \<mapsto> Dir),
         stdout := [WarnNoSource marked_path]\<rparr>)"
    using redownload_empty_reference [OF lookup_fresh_world p n x,
        where extensions = "[str ''mid'']" and folder = None and binary_path = None
          and html_folder = None]
    by (simp add: configure_fresh_world s o)
  have k: "lookup (fresh_world\<lparr>nodes := (nodes fresh_world)(str ''media'' \<mapsto> Dir, str ''html'' \<mapsto> Dir),
         stdout := [WarnNoSource marked_path]\<rparr>)
       marked_path = Some (File page)"
    by (simp add: lookup_def fresh_world_def marked_path_def str_def)
  show ?thesis
    unfolding r using lookup_fresh_world n x k by simp
qed

section \<open>Selecting the reference with a target extension\<close>

text \<open>
  C4. Let the target extensions be \<open>mid\<close> in any letter case, and let a document
  consist of an element \<open>e3\<close> whose \<open>src\<close> has the extension \<open>.mid\<close> in any letter
  case, and of other elements, before and after it, each without \<open>src\<close> or with an
  extension that is \<open>.mp3\<close> or \<open>.ogg\<close> in any letter case (so in particular a
  document with exactly these three references). Then the loop passes every other
  element by and does not pass \<open>e3\<close> by: the run of the loop over the document is
  the loop body for \<open>e3\<close> alone, between the notes for elements without \<open>src\<close>;
  \<open>got\<close> is what that one body leaves. The body for \<open>e3\<close> is the fetch of the
  \<open>.mid\<close> URL, to the folder or to \<open>binary_path\<close>. Nothing is collected for the
  other references.
\<close>

theorem redownload_selects_mid:
  assumes t: "map (lower (unicode_lower env)) extensions = [str ''mid'']"
    and m: "src_of e3 = Some s3" "lower (unicode_lower env) (snd (splitext s3)) = str ''.mid''"
    and o: "list_all (\<lambda>e. case src_of e of None \<Rightarrow> True | Some s \<Rightarrow>
              lower (unicode_lower env) (snd (splitext s)) = str ''.mp3'' \<or>
              lower (unicode_lower env) (snd (splitext s)) = str ''.ogg'') (pre @ post)"
  shows "list_all (passed_by env (dot_exts_of env extensions)) (pre @ post) \<and>
     \<not> passed_by env (dot_exts_of env extensions) e3 \<and>
     redownload_loop env (dot_exts_of env extensions) folder binary_path (pre @ e3 # post)
         (None, None) w =
       (case redownload_elt env (dot_exts_of env extensions) folder binary_path e3 (None, None)
               (w\<lparr>stdout := stdout w @ src_notes pre\<rparr>) of
          (Inl e, w1) \<Rightarrow> (Inl e, w1)
        | (Inr r, w1) \<Rightarrow>
            (Inr (fst r, last_src (Some s3) post), w1\<lparr>stdout := stdout w1 @ src_notes post\<rparr>)) \<and>
     redownload_elt env (dot_exts_of env extensions) (Some f) None e3 (None, None) =
       io_bind (fetch env s3 (join f (unquote env (url_name s3)))
                  (if f \<noteq> [] then Some (join f (url_name s3)) else None) None)
         (\<lambda>r. io_return (snd r, Some s3)) \<and>
     redownload_elt env (dot_exts_of env extensions) None (Some b) e3 (None, None) =
       io_bind (fetch env s3 b None None) (\<lambda>r. io_return (snd r, Some s3))"
proof -
  let ?dx = "dot_exts_of env extensions"
  have dx: "?dx = [str ''.mid'']"
    by (rule dot_exts_of_mid [OF t])
  have ne: "str ''.mp3'' \<noteq> str ''.mid''" "str ''.ogg'' \<noteq> str ''.mid''"
    by (simp_all add: str_def)
  have pb: "passed_by env ?dx e" if "e \<in> set (pre @ post)" for e
    using o that ne unfolding dx list_all_iff passed_by_def
    by (cases "src_of e") force+
  then have a: "list_all (passed_by env ?dx) (pre @ post)"
    by (simp add: list_all_iff)
  then have pre: "list_all (passed_by env ?dx) pre" and post: "list_all (passed_by env ?dx) post"
    by simp_all
  have b: "\<not> passed_by env ?dx e3"
    using m by (simp add: passed_by_def dx)
  let ?w = "w\<lparr>stdout := stdout w @ src_notes pre\<rparr>"
  have c: "redownload_loop env ?dx folder binary_path (pre @ e3 # post) (None, None) w =
       (case redownload_elt env ?dx folder binary_path e3 (None, None) ?w of
          (Inl e, w1) \<Rightarrow> (Inl e, w1)
        | (Inr r, w1) \<Rightarrow>
            (Inr (fst r, last_src (Some s3) post), w1\<lparr>stdout := stdout w1 @ src_notes post\<rparr>))"
  proof -
    obtain x w1 where e: "redownload_elt env ?dx folder binary_path e3 (None, None) ?w = (x, w1)"
      by (cases "redownload_elt env ?dx folder binary_path e3 (None, None) ?w")
    have e': "redownload_elt env ?dx folder binary_path e3 (None, last_src None pre) ?w = (x, w1)"
      using e redownload_elt_found_url [OF m(1), where got = None and fu = "last_src None pre"
          and fu' = None and env = env and dx = ?dx and folder = folder and bp = binary_path]
      by simp
    show ?thesis
    proof (cases x)
      case (Inl err)
      with e e' show ?thesis
        by (simp add: redownload_loop_append io_bind_def redownload_loop_passed_by [OF pre])
    next
      case (Inr r)
      obtain g fu where r: "r = (g, fu)" by (cases r)
      have "fu = Some s3"
        using redownload_elt_found_url_result [OF m(1)] e Inr r by fastforce
      with e e' Inr r show ?thesis
        by (simp add: redownload_loop_append io_bind_def redownload_loop_passed_by [OF pre]
            redownload_loop_passed_by [OF post])
    qed
  qed
  have d: "redownload_elt env ?dx (Some f) None e3 (None, None) =
       io_bind (fetch env s3 (join f (unquote env (url_name s3)))
                  (if f \<noteq> [] then Some (join f (url_name s3)) else None) None)
         (\<lambda>r. io_return (snd r, Some s3))"
    using m by (simp add: redownload_elt_def src_of_def dx Let_def url_name_def)
  have e: "redownload_elt env ?dx None (Some b) e3 (None, None) =
       io_bind (fetch env s3 b None None) (\<lambda>r. io_return (snd r, Some s3))"
    using m by (simp add: redownload_elt_def src_of_def dx Let_def truthy_def)
  show ?thesis
    using a b c d e by blast
qed

theorem redownload_selects_mid_witness:
  "map (lower (unicode_lower example_env)) [str ''Mid''] = [str ''mid''] \<and>
   guajeo_doc = take 3 guajeo_doc @ guajeo_doc ! 3 # [] \<and>
   src_of (guajeo_doc ! 3) = Some (str ''https://u.org/a/g.mid'') \<and>
   map (\<lambda>e. map_option (\<lambda>s. lower (unicode_lower example_env) (snd (splitext s))) (src_of e))
     (take 3 guajeo_doc) = [None, Some (str ''.mp3''), Some (str ''.ogg'')] \<and>
   fst (redownload_loop example_env (dot_exts_of example_env [str ''Mid'']) (Some (str ''media''))
          None guajeo_doc (None, None) media_world) =
     Inr (Some (str ''https://u.org/a/g.mid''), Some (str ''https://u.org/a/g.mid'')) \<and>
   requests (snd (redownload_loop example_env (dot_exts_of example_env [str ''Mid''])
          (Some (str ''media'')) None guajeo_doc (None, None) media_world)) =
     [(str ''https://u.org/a/g.mid'', headers)]"
proof -
  let ?e3 = "\<lparr>tag = str ''source'', attrib = [(str ''src'', str ''https://u.org/a/g.mid'')]\<rparr>"
  let ?pre = "take 3 guajeo_doc"
  have t: "map (lower (unicode_lower example_env)) [str ''Mid''] = [str ''mid'']"
    by (simp add: example_env_def lower_def is_ascii_def ascii_lower_def str_def)
  have g: "guajeo_doc = ?pre @ ?e3 # []"
    by (simp add: guajeo_doc_def)
  have m1: "src_of ?e3 = Some (str ''https://u.org/a/g.mid'')"
    by (simp add: src_of_def str_def)
  have m2: "lower (unicode_lower example_env) (snd (splitext (str ''https://u.org/a/g.mid''))) =
      str ''.mid''"
    by (simp add: example_env_def lower_def is_ascii_def ascii_lower_def splitext_def str_def)
  have x: "map (\<lambda>e. map_option (\<lambda>s. lower (unicode_lower example_env) (snd (splitext s))) (src_of e))
     ?pre = [None, Some (str ''.mp3''), Some (str ''.ogg'')]"
    by (simp add: guajeo_doc_def src_of_def example_env_def lower_def is_ascii_def
        ascii_lower_def splitext_def str_def)
  have o: "list_all (\<lambda>e. case src_of e of None \<Rightarrow> True | Some s \<Rightarrow>
              lower (unicode_lower example_env) (snd (splitext s)) = str ''.mp3'' \<or>
              lower (unicode_lower example_env) (snd (splitext s)) = str ''.ogg'') (?pre @ [])"
    by (simp add: guajeo_doc_def src_of_def example_env_def lower_def is_ascii_def
        ascii_lower_def splitext_def str_def)
  have n: "src_notes ?pre = []"
    by (simp add: src_notes_def guajeo_doc_def src_of_def str_def)
  have f: "fetch example_env (str ''https://u.org/a/g.mid'') (str ''media/g.mid'')
          (Some (str ''media/g.mid'')) None media_world =
      (Inr (Downloaded, Some (str ''https://u.org/a/g.mid'')),
       media_world\<lparr>nodes := (nodes media_world)(str ''media/g.mid'' \<mapsto> File (str ''MThd'')),
         stdout := [HashDownloading (str ''https://u.org/a/g.mid''), Downloading (str ''media/g.mid''),
           NotDoctype (str ''MThd''), Saved (str ''media/g.mid'')],
         requests := [(str ''https://u.org/a/g.mid'', headers)]\<rparr>)"
    by (simp add: eval_defs example_env_def media_world_def fresh_world_def marked_path_def
        str_def)
  have so: "media_world\<lparr>stdout := stdout media_world @ src_notes ?pre\<rparr> = media_world"
    by (simp add: n media_world_def fresh_world_def)
  have sn: "src_notes [] = []"
    by (simp add: src_notes_def)
  have j: "join (str ''media'') (unquote example_env (url_name (str ''https://u.org/a/g.mid''))) =
      str ''media/g.mid''"
    "join (str ''media'') (url_name (str ''https://u.org/a/g.mid'')) = str ''media/g.mid''"
    "str ''media'' \<noteq> []"
    by (simp_all add: join_def url_name_def example_env_def startswith_def endswith_def str_def)
  have "redownload_loop example_env (dot_exts_of example_env [str ''Mid'']) (Some (str ''media''))
          None (?pre @ ?e3 # []) (None, None) media_world =
      (Inr (Some (str ''https://u.org/a/g.mid''), Some (str ''https://u.org/a/g.mid'')),
       media_world\<lparr>nodes := (nodes media_world)(str ''media/g.mid'' \<mapsto> File (str ''MThd'')),
         stdout := [HashDownloading (str ''https://u.org/a/g.mid''), Downloading (str ''media/g.mid''),
           NotDoctype (str ''MThd''), Saved (str ''media/g.mid'')],
         requests := [(str ''https://u.org/a/g.mid'', headers)]\<rparr>)"
    using redownload_selects_mid [OF t m1 m2 o, where folder = "Some (str ''media'')"
        and binary_path = None and f = "str ''media''" and w = media_world]
    by (simp add: so sn j f io_bind_def io_return_def)
  then show ?thesis
    using t g m1 x by (simp add: guajeo_doc_def)
qed

section \<open>The decision order of the fetch\<close>



section \<open>Archiving the page after the fetch\<close>

text \<open>
  C1. The claim is that the page is archived after every outcome that leaves the
  asset in place, the skipped-existing outcome included. The batch run is evaluated
  on a directory whose marked page links to \<open>g.mid\<close>, with a binary
  \<open>media/g.mid\<close> already there: the fetch takes the skipped-existing branch (line
  184), which does not set \<open>got\<close>, so line 206 moves nothing; the run ends normally,
  the page is still at its path and the archive folder, created empty, does not hold
  it. On the same directory without \<open>media/g.mid\<close> the file is downloaded and the
  page is archived (the last two conjuncts), as it is after the leftover branch.
\<close>

theorem redownload_all_skipped_existing_not_archived:
  "redownload_all example_env (str ''.'') skip_world =
     (Inr (),
      skip_world\<lparr>nodes := (nodes skip_world)(str ''html'' \<mapsto> Dir),
        stdout := [NotDoctype (str ''MThd''), SkippingExisting mid_dst]\<rparr>) \<and>
   lookup (snd (redownload_all example_env (str ''.'') skip_world)) marked_path =
     Some (File page) \<and>
   lookup (snd (redownload_all example_env (str ''.'') skip_world)) archived_path = None \<and>
   lookup (snd (redownload_all example_env (str ''.'') fresh_world)) marked_path = None \<and>
   lookup (snd (redownload_all example_env (str ''.'') fresh_world)) archived_path =
     Some (File page)"
proof -
  have a: "redownload_all example_env (str ''.'') skip_world =
     (Inr (),
      skip_world\<lparr>nodes := (nodes skip_world)(str ''html'' \<mapsto> Dir),
        stdout := [NotDoctype (str ''MThd''), SkippingExisting mid_dst]\<rparr>)"
    by (simp add: batch_defs eval_defs example_env_def guajeo_doc_def skip_world_def
        media_world_def fresh_world_def marked_path_def mid_dst_def str_def page_def)
  have b: "lookup (skip_world\<lparr>nodes := (nodes skip_world)(str ''html'' \<mapsto> Dir),
        stdout := [NotDoctype (str ''MThd''), SkippingExisting mid_dst]\<rparr>) marked_path =
     Some (File page)"
    "lookup (skip_world\<lparr>nodes := (nodes skip_world)(str ''html'' \<mapsto> Dir),
        stdout := [NotDoctype (str ''MThd''), SkippingExisting mid_dst]\<rparr>) archived_path = None"
    by (simp_all add: lookup_def skip_world_def media_world_def fresh_world_def marked_path_def
        archived_path_def mid_dst_def str_def)
  have c: "lookup (snd (redownload_all example_env (str ''.'') fresh_world)) marked_path = None"
    by (simp add: batch_defs eval_defs example_env_def guajeo_doc_def
        fresh_world_def marked_path_def str_def page_def)
  have d: "lookup (snd (redownload_all example_env (str ''.'') fresh_world)) archived_path =
     Some (File page)"
    by (simp add: batch_defs eval_defs example_env_def guajeo_doc_def archived_path_def
        fresh_world_def marked_path_def str_def page_def)
  show ?thesis
    unfolding a using b c d by simp
qed

theorem redownload_all_skipped_existing_not_archived_witness:
  "isfile (snd (redownload_all example_env (str ''.'') skip_world)) marked_path \<and>
   \<not> isfile (snd (redownload_all example_env (str ''.'') skip_world)) archived_path \<and>
   requests (snd (redownload_all example_env (str ''.'') skip_world)) = []"
proof -
  note t = redownload_all_skipped_existing_not_archived
  have l: "lookup (snd (redownload_all example_env (str ''.'') skip_world)) marked_path =
      Some (File page)"
    "lookup (snd (redownload_all example_env (str ''.'') skip_world)) archived_path = None"
    using t by blast+
  have "redownload_all example_env (str ''.'') skip_world =
     (Inr (),
      skip_world\<lparr>nodes := (nodes skip_world)(str ''html'' \<mapsto> Dir),
        stdout := [NotDoctype (str ''MThd''), SkippingExisting mid_dst]\<rparr>)"
    using t by blast
  then have q: "requests (snd (redownload_all example_env (str ''.'') skip_world)) = []"
    by (simp add: skip_world_def media_world_def fresh_world_def)
  show ?thesis
    using l q by (simp add: isfile_def)
qed

section \<open>The value of the user agent header\<close>

text \<open>
  C2. Every request that \<open>download\<close> sends (it sends one whenever the destination
  can be opened for writing) carries the single header \<open>User-Agent\<close> with the value
  \<open>UA\<close>. That value begins with the header's name, \<open>User-Agent: \<close>, and for that
  reason does not have the format
  \<open><product>/<version> (<contact>) <library>/<version>\<close>; what follows those twelve
  characters does have it.
\<close>

theorem download_user_agent_value:
  "(dst \<noteq> [] \<and> \<not> isdir w dst \<longrightarrow>
      requests (snd (download env url dst w)) = requests w @ [(url, [(str ''User-Agent'', UA)])]) \<and>
   startswith UA (str ''User-Agent: '') \<and>
   \<not> spec_user_agent_format UA \<and>
   spec_user_agent_format (drop 12 UA)"
  using download_requests [of dst w env url] UA_format
  by (simp add: headers_def)

theorem download_user_agent_value_witness:
  "mid_dst \<noteq> [] \<and> \<not> isdir media_world mid_dst \<and>
   map (\<lambda>r. map snd (snd r)) (requests (snd (download example_env mid_url mid_dst media_world))) =
     [[str ''User-Agent: FileReFollow/0.2 (https://github.com/Poikilos/filerefollow) filerefollow/0.2'']]"
  using download_user_agent_value [of mid_dst media_world example_env mid_url] media_world_simps
  by (simp add: UA_def str_def)

section \<open>One folder for both kinds of file\<close>

text \<open>
  The claim C3 fails: a call with \<open>folder\<close> and \<open>html_folder\<close> both \<open>x\<close> is not
  rejected. It returns normally, with the downloaded file and the page both in
  \<open>x\<close>.
\<close>

theorem same_folder_not_rejected:
  "fst (redownload example_env marked_path [str ''mid''] (Some (str ''x'')) None
          (Some (str ''x'')) fresh_world) = Inr () \<and>
   lookup (snd (redownload example_env marked_path [str ''mid''] (Some (str ''x'')) None
          (Some (str ''x'')) fresh_world)) (str ''x/g.mid'') = Some (File (str ''MThd'')) \<and>
   lookup (snd (redownload example_env marked_path [str ''mid''] (Some (str ''x'')) None
          (Some (str ''x'')) fresh_world)) (str ''x/File'' @ [720] @ str ''g.mid'') =
     Some (File page)"
  by (simp add: eval_defs example_env_def guajeo_doc_def
        fresh_world_def marked_path_def str_def page_def)

text \<open>
  C3, as the code has it. \<open>redownload\<close> raises its configuration error exactly when
  \<open>folder\<close> and \<open>binary_path\<close> are both set, whatever \<open>html_folder\<close> is and whatever
  the world is: in particular a call with \<open>folder\<close> and \<open>html_folder\<close> equal and
  \<open>binary_path\<close> unset does not raise it.
\<close>

theorem redownload_conflict_iff:
  "(fst (redownload env html_path extensions folder binary_path html_folder w) =
      Inl folder_conflict) = (folder \<noteq> None \<and> binary_path \<noteq> None)"
proof (cases "folder = None \<or> binary_path = None")
  case True
  then show ?thesis
    using nc_redownload [OF True, of env html_path extensions html_folder]
    by (auto simp: no_conflict_def)
next
  case False
  then obtain f b where "folder = Some f" "binary_path = Some b" by auto
  then show ?thesis
    by (simp add: redownload_def configure_def choose_folder_def io_defs)
qed

theorem redownload_conflict_iff_witness:
  "fst (redownload example_env marked_path [str ''mid''] (Some (str ''x'')) None
          (Some (str ''x'')) fresh_world) \<noteq> Inl folder_conflict \<and>
   fst (redownload example_env marked_path [str ''mid''] (Some (str ''x'')) (Some (str ''y''))
          (Some (str ''z'')) fresh_world) = Inl folder_conflict"
  using redownload_conflict_iff [of example_env marked_path "[str ''mid'']" "Some (str ''x'')"
      None "Some (str ''x'')" fresh_world]
    redownload_conflict_iff [of example_env marked_path "[str ''mid'']" "Some (str ''x'')"
      "Some (str ''y'')" "Some (str ''z'')" fresh_world]
  by simp

end
